theory Spec2Isabelle
  imports Complex_Main
begin

section \<open>Python values\<close>

subsection \<open>Strings\<close>

text \<open>
  A Python \<open>str\<close> is a sequence of Unicode code points; \<open>len\<close> and slicing count
  code points.  A string is therefore a list of code points, and \<open>lit\<close> turns an
  ASCII literal of the source into one.
\<close>

type_synonym pystr = "nat list"

definition lit :: "string \<Rightarrow> pystr" where
  "lit s = map of_char s"

text \<open>
  \<open>str.isspace\<close> on one code point.  The regular expression class \<open>\s\<close> on
  \<open>str\<close> patterns and \<open>str.strip()\<close> both use this set.
\<close>

definition isspace :: "nat \<Rightarrow> bool" where
  "isspace c = (c \<in> set [9, 10, 11, 12, 13, 28, 29, 30, 31, 32, 133, 160, 5760,
      8192, 8193, 8194, 8195, 8196, 8197, 8198, 8199, 8200, 8201, 8202,
      8232, 8233, 8239, 8287, 12288])"

text \<open>\<open>re.sub(r"\s+", " ", text)\<close>: every maximal run of whitespace becomes one space.\<close>

function sub_ws :: "pystr \<Rightarrow> pystr" where
  "sub_ws [] = []"
| "sub_ws (c # cs) =
     (if isspace c then 32 # sub_ws (dropWhile isspace cs) else c # sub_ws cs)"
  by pat_completeness auto
termination
  by (relation "measure length") (auto simp: less_Suc_eq_le length_dropWhile_le)

text \<open>\<open>s.strip()\<close>: leading and trailing whitespace removed.\<close>

definition strip :: "pystr \<Rightarrow> pystr" where
  "strip s = rev (dropWhile isspace (rev (dropWhile isspace s)))"

text \<open>\<open>def clean_comment(text): return re.sub(r"\s+", " ", text).strip()\<close>\<close>

definition clean_comment :: "pystr \<Rightarrow> pystr" where
  "clean_comment text = strip (sub_ws text)"

text \<open>\<open>s in t\<close> on two strings: \<open>s\<close> occurs in \<open>t\<close> as a contiguous substring.\<close>

fun starts_with :: "pystr \<Rightarrow> pystr \<Rightarrow> bool" where
  "starts_with [] t = True"
| "starts_with (a # s) [] = False"
| "starts_with (a # s) (b # t) = (a = b \<and> starts_with s t)"

fun str_contains :: "pystr \<Rightarrow> pystr \<Rightarrow> bool" where
  "str_contains s [] = (s = [])"
| "str_contains s (b # t) = (starts_with s (b # t) \<or> str_contains s t)"

text \<open>\<open>s.replace("Z", "")\<close>: every occurrence of the letter Z (code point 90) removed.\<close>

definition remove_Z :: "pystr \<Rightarrow> pystr" where
  "remove_Z s = filter (\<lambda>c. c \<noteq> 90) s"

subsection \<open>Exceptions\<close>

text \<open>
  The exception classes the code can meet.  \<open>RequestException\<close> stands for the
  transport errors of \<open>requests\<close> (connection, timeout); \<open>HTTPError\<close> is raised by
  \<open>raise_for_status\<close>; \<open>JSONDecodeError\<close> is raised by \<open>response.json()\<close> and is a
  subclass of both \<open>RequestException\<close> and \<open>ValueError\<close> (requests 2.27 and later).
\<close>

datatype exn =
    RequestException | HTTPError | JSONDecodeError | ValueError | KeyError
  | TypeError | AttributeError | IndexError | OverflowError

fun is_RequestException :: "exn \<Rightarrow> bool" where
  "is_RequestException RequestException = True"
| "is_RequestException HTTPError = True"
| "is_RequestException JSONDecodeError = True"
| "is_RequestException _ = False"

fun is_ValueError :: "exn \<Rightarrow> bool" where
  "is_ValueError ValueError = True"
| "is_ValueError JSONDecodeError = True"
| "is_ValueError _ = False"

text \<open>A computation that raises is \<open>Inl\<close> of the exception; \<open>bindE\<close> sequences two.\<close>

definition bindE :: "exn + 'a \<Rightarrow> ('a \<Rightarrow> exn + 'b) \<Rightarrow> exn + 'b" where
  "bindE m f = (case m of Inl e \<Rightarrow> Inl e | Inr x \<Rightarrow> f x)"

text \<open>A \<open>for\<close> loop that updates a local state and stops at the first exception.\<close>

fun foldE :: "('s \<Rightarrow> 'a \<Rightarrow> exn + 's) \<Rightarrow> 's \<Rightarrow> 'a list \<Rightarrow> exn + 's" where
  "foldE f s [] = Inr s"
| "foldE f s (x # xs) = bindE (f s x) (\<lambda>s'. foldE f s' xs)"

subsection \<open>JSON values as Python objects\<close>

text \<open>
  What \<open>response.json()\<close> returns: \<open>None\<close>, \<open>bool\<close>, \<open>int\<close>, \<open>float\<close> (a finite
  float is a rational number), \<open>str\<close>, \<open>list\<close> and \<open>dict\<close>.  A dict is an
  association list in insertion order, read left to right: the first binding of a
  key is the dict's (the JSON decoder never yields two bindings of one key).
\<close>

datatype json =
    JNull | JBool bool | JInt int | JFloat rat | JStr pystr
  | JArr "json list" | JObj "(pystr \<times> json) list"

text \<open>Truth value of an object in a condition (\<open>if x\<close>, \<open>not x\<close>).\<close>

fun truthy :: "json \<Rightarrow> bool" where
  "truthy JNull = False"
| "truthy (JBool b) = b"
| "truthy (JInt i) = (i \<noteq> 0)"
| "truthy (JFloat r) = (r \<noteq> 0)"
| "truthy (JStr s) = (s \<noteq> [])"
| "truthy (JArr xs) = (xs \<noteq> [])"
| "truthy (JObj kvs) = (kvs \<noteq> [])"

text \<open>\<open>x[k]\<close> with a string key \<open>k\<close>: only a dict can be subscripted by a string.\<close>

fun getitem :: "json \<Rightarrow> pystr \<Rightarrow> exn + json" where
  "getitem (JObj kvs) k = (case map_of kvs k of None \<Rightarrow> Inl KeyError | Some v \<Rightarrow> Inr v)"
| "getitem _ k = Inl TypeError"

text \<open>
  \<open>k in x\<close> with a string \<open>k\<close>: a key test on a dict, an element test on a list, a
  substring test on a string; \<open>TypeError\<close> on an object that is not a container.
\<close>

fun contains :: "pystr \<Rightarrow> json \<Rightarrow> exn + bool" where
  "contains k (JObj kvs) = Inr (map_of kvs k \<noteq> None)"
| "contains k (JArr xs) = Inr (JStr k \<in> set xs)"
| "contains k (JStr t) = Inr (str_contains k t)"
| "contains k _ = Inl TypeError"

text \<open>\<open>x.get(k, d)\<close>: only a dict has the method.\<close>

fun dict_get :: "json \<Rightarrow> pystr \<Rightarrow> json \<Rightarrow> exn + json" where
  "dict_get (JObj kvs) k d = Inr (case map_of kvs k of None \<Rightarrow> d | Some v \<Rightarrow> v)"
| "dict_get _ k d = Inl AttributeError"

text \<open>
  The elements a \<open>for\<close> loop or a comprehension visits: the elements of a list, the
  keys of a dict, the characters of a string.
\<close>

fun iter :: "json \<Rightarrow> exn + json list" where
  "iter (JArr xs) = Inr xs"
| "iter (JObj kvs) = Inr (map (\<lambda>kv. JStr (fst kv)) kvs)"
| "iter (JStr s) = Inr (map (\<lambda>c. JStr [c]) s)"
| "iter _ = Inl TypeError"

fun len :: "json \<Rightarrow> exn + nat" where
  "len (JStr s) = Inr (length s)"
| "len (JArr xs) = Inr (length xs)"
| "len (JObj kvs) = Inr (length kvs)"
| "len _ = Inl TypeError"

text \<open>\<open>x.replace("Z", "")\<close>: a string method; any other object has no such attribute.\<close>

fun replace_Z :: "json \<Rightarrow> exn + pystr" where
  "replace_Z (JStr s) = Inr (remove_Z s)"
| "replace_Z _ = Inl AttributeError"

text \<open>Only immutable objects can be dict keys or set members.\<close>

fun hashable :: "json \<Rightarrow> bool" where
  "hashable (JArr xs) = False"
| "hashable (JObj kvs) = False"
| "hashable _ = True"

text \<open>
  \<open>x == y\<close>.  Numbers compare by value across \<open>bool\<close>, \<open>int\<close> and \<open>float\<close>
  (\<open>True == 1 == 1.0\<close>); lists compare element by element; dicts compare as
  mappings, whatever their order.
\<close>

fun num_val :: "json \<Rightarrow> rat option" where
  "num_val (JBool b) = Some (if b then 1 else 0)"
| "num_val (JInt i) = Some (of_int i)"
| "num_val (JFloat r) = Some r"
| "num_val _ = None"

lemma size_json_elem: "a \<in> set xs \<Longrightarrow> size (a::json) \<le> size_list size xs"
  by (induction xs) auto

lemma size_json_binding:
  "(k, v) \<in> set kvs \<Longrightarrow> size (v::json) \<le> size_list (size_prod (\<lambda>x. 0) size) kvs"
  by (induction kvs) auto

function py_eq :: "json \<Rightarrow> json \<Rightarrow> bool" where
  "py_eq x y =
     (case (x, y) of
        (JStr a, JStr b) \<Rightarrow> a = b
      | (JNull, JNull) \<Rightarrow> True
      | (JArr xs, JArr ys) \<Rightarrow>
          length xs = length ys \<and> list_all (\<lambda>(a, b). py_eq a b) (zip xs ys)
      | (JObj a, JObj b) \<Rightarrow>
          set (map fst a) = set (map fst b) \<and>
          list_all (\<lambda>(k, v). case map_of b k of None \<Rightarrow> False | Some w \<Rightarrow> py_eq v w) a
      | _ \<Rightarrow> (case (num_val x, num_val y) of (Some a, Some b) \<Rightarrow> a = b | _ \<Rightarrow> False))"
  by pat_completeness auto
termination
  by (relation "measure (\<lambda>(x, y). size x)")
     (auto simp: less_Suc_eq_le dest: size_json_elem size_json_binding dest!: set_zip_leftD)

declare py_eq.simps [simp del]

text \<open>\<open>x in xs\<close> for a list (or tuple) \<open>xs\<close>: some element equals \<open>x\<close>.\<close>

definition list_contains :: "json \<Rightarrow> json list \<Rightarrow> bool" where
  "list_contains x xs = list_ex (py_eq x) xs"

text \<open>\<open>x in s\<close> for a set \<open>s\<close> (kept as the list of its members): \<open>x\<close> is hashed first.\<close>

definition set_contains :: "json \<Rightarrow> json list \<Rightarrow> exn + bool" where
  "set_contains x s = (if hashable x then Inr (list_ex (py_eq x) s) else Inl TypeError)"

subsection \<open>Dates and times\<close>

text \<open>
  A \<open>datetime.date\<close> is its proleptic Gregorian ordinal (\<open>date.toordinal()\<close>):
  \<open>date.min\<close> is day 1 (0001-01-01), \<open>date.max\<close> is day 3652059 (9999-12-31), and
  dates compare as their ordinals do.  \<open>d + timedelta(days=n)\<close> raises
  \<open>OverflowError\<close> outside that range.
\<close>

type_synonym date = int

definition date_min :: date where
  "date_min = 1"

definition date_max :: date where
  "date_max = 3652059"

definition date_add_days :: "date \<Rightarrow> int \<Rightarrow> exn + date" where
  "date_add_days d n =
     (if date_min \<le> d + n \<and> d + n \<le> date_max then Inr (d + n) else Inl OverflowError)"

text \<open>
  A \<open>datetime.datetime\<close>: the wall-clock reading in microseconds counted from the
  midnight that starts day 0, and the UTC offset in microseconds of an aware
  datetime (\<open>None\<close> when it is naive).
\<close>

record datetime =
  wall :: int
  utcoffset :: "int option"

definition usec_per_day :: int where
  "usec_per_day = 86400000000"

text \<open>\<open>dt.date()\<close>\<close>

definition dt_date :: "datetime \<Rightarrow> date" where
  "dt_date dt = wall dt div usec_per_day"

text \<open>
  \<open>dt.replace(tzinfo=datetime.timezone.utc)\<close>: the reading is kept and declared to
  be UTC; an offset that was parsed from the string is discarded.
\<close>

definition replace_tzinfo_utc :: "datetime \<Rightarrow> datetime" where
  "replace_tzinfo_utc dt = dt\<lparr>utcoffset := Some 0\<rparr>"

text \<open>
  \<open>dt.astimezone(tz)\<close> on an aware datetime: the instant is kept, the reading moves
  to the zone \<open>tz\<close>, given as the function from a UTC reading to the zone's offset
  at that instant.  The result must be a representable date.  (On a naive datetime
  Python takes the reading as system local time; the code only calls the method on
  an aware one, and the model reads a naive one as UTC.)
\<close>

definition astimezone :: "(int \<Rightarrow> int) \<Rightarrow> datetime \<Rightarrow> exn + datetime" where
  "astimezone tz dt =
     (let utc = wall dt - (case utcoffset dt of None \<Rightarrow> 0 | Some off \<Rightarrow> off);
          local = utc + tz utc
      in if date_min \<le> local div usec_per_day \<and> local div usec_per_day \<le> date_max
         then Inr \<lparr>wall = local, utcoffset = Some (tz utc)\<rparr>
         else Inl OverflowError)"

text \<open>
  Ordering of two datetimes: \<open>TypeError\<close> between a naive and an aware one; two
  naive ones compare by reading, two aware ones by instant.
\<close>

definition dt_comparable :: "datetime \<Rightarrow> datetime \<Rightarrow> bool" where
  "dt_comparable a b = ((utcoffset a = None) = (utcoffset b = None))"

definition dt_key :: "datetime \<Rightarrow> int" where
  "dt_key dt = wall dt - (case utcoffset dt of None \<Rightarrow> 0 | Some off \<Rightarrow> off)"

text \<open>Year, month and day of an ordinal, and back (the civil calendar).\<close>

definition ord2ymd :: "int \<Rightarrow> int \<times> int \<times> int" where
  "ord2ymd n =
     (let z = n + 305;
          era = z div 146097;
          doe = z - era * 146097;
          yoe = (doe - doe div 1460 + doe div 36524 - doe div 146096) div 365;
          doy = doe - (365 * yoe + yoe div 4 - yoe div 100);
          mp = (5 * doy + 2) div 153;
          d = doy - (153 * mp + 2) div 5 + 1;
          m = (if mp < 10 then mp + 3 else mp - 9);
          y = yoe + era * 400
      in (if m \<le> 2 then y + 1 else y, m, d))"

definition ymd2ord :: "int \<Rightarrow> int \<Rightarrow> int \<Rightarrow> int" where
  "ymd2ord y m d =
     (let y' = (if m \<le> 2 then y - 1 else y);
          era = y' div 400;
          yoe = y' - era * 400;
          doy = (153 * (if m > 2 then m - 3 else m + 9) + 2) div 5 + d - 1;
          doe = yoe * 365 + yoe div 4 - yoe div 100 + doy
      in era * 146097 + doe - 305)"

text \<open>A number below 100, or below 10000, in decimal digits with leading zeros.\<close>

definition pad2 :: "int \<Rightarrow> pystr" where
  "pad2 n = [nat (48 + n div 10 mod 10), nat (48 + n mod 10)]"

definition pad4 :: "int \<Rightarrow> pystr" where
  "pad4 n = pad2 (n div 100) @ pad2 (n mod 100)"

text \<open>
  \<open>dt.strftime("%d-%m-%Y %H:%M")\<close>.  (The year is printed with four digits; for a
  year below 1000 some platforms print fewer.)
\<close>

definition strftime :: "datetime \<Rightarrow> pystr" where
  "strftime dt =
     (let (y, m, d) = ord2ymd (wall dt div usec_per_day);
          s = (wall dt mod usec_per_day) div 1000000
      in pad2 d @ [45] @ pad2 m @ [45] @ pad4 y @ [32] @
         pad2 (s div 3600) @ [58] @ pad2 ((s div 60) mod 60))"

section \<open>The environment of the bot\<close>

text \<open>
  The Planka service answers a request with a response (a status code and a body
  that is JSON or not) or the request fails in transport.  A \<open>GET\<close> request is
  named by its endpoint and the object that the f-string puts into the URL, and it
  carries the header \<open>Authorization: Bearer {token}\<close>.  Within one command the same
  request gets the same answer.
\<close>

datatype endpoint =
    Projects              \<comment> \<open>\<open>GET {PLANKA_URL}/projects\<close>\<close>
  | Project json          \<comment> \<open>\<open>GET {PLANKA_URL}/projects/{project_id}\<close>\<close>
  | Board json            \<comment> \<open>\<open>GET {PLANKA_URL}/boards/{board_id}\<close>\<close>
  | CardActions json      \<comment> \<open>\<open>GET {PLANKA_URL}/cards/{card_id}/actions\<close>\<close>

datatype http = ConnectionFailed | Response nat "json option"

text \<open>
  What the code takes from outside the repository: the service, the constants of
  \<open>config.py\<close> that the modelled functions read (\<open>BOARD_IDS\<close>, a list of board ids,
  and \<open>TIMEZONE\<close>, given by its UTC offset in microseconds at a UTC reading), and the
  library parser \<open>datetime.datetime.fromisoformat\<close> (\<open>None\<close> where it raises
  \<open>ValueError\<close>).
\<close>

record env =
  planka :: "endpoint \<Rightarrow> json \<Rightarrow> http"
  access_tokens :: http
  BOARD_IDS :: "json list"
  TIMEZONE :: "int \<Rightarrow> int"
  fromisoformat :: "pystr \<Rightarrow> datetime option"

text \<open>\<open>requests.get(url, headers=headers).json()\<close>\<close>

definition requests_get_json :: "env \<Rightarrow> endpoint \<Rightarrow> json \<Rightarrow> exn + json" where
  "requests_get_json env ep token =
     (case planka env ep token of
        ConnectionFailed \<Rightarrow> Inl RequestException
      | Response status body \<Rightarrow>
          (case body of None \<Rightarrow> Inl JSONDecodeError | Some j \<Rightarrow> Inr j))"

section \<open>The functions of \<open>checker_date_planka.py\<close>\<close>

subsection \<open>\<open>get_token\<close>\<close>

text \<open>
  The body of the \<open>try\<close>: \<open>requests.post\<close>, \<open>raise_for_status()\<close> (an error for a
  status from 400 to 599), then \<open>response.json()["item"]\<close>.  The log file and
  \<open>clear_log\<close> are not modelled.
\<close>

definition post_access_tokens :: "env \<Rightarrow> exn + json" where
  "post_access_tokens env =
     (case access_tokens env of
        ConnectionFailed \<Rightarrow> Inl RequestException
      | Response status body \<Rightarrow>
          if 400 \<le> status \<and> status < 600 then Inl HTTPError
          else (case body of
                  None \<Rightarrow> Inl JSONDecodeError
                | Some j \<Rightarrow> getitem j (lit ''item'')))"

text \<open>\<open>except requests.RequestException: return None\<close>; \<open>None\<close> is \<open>JNull\<close>.\<close>

definition get_token :: "env \<Rightarrow> exn + json" where
  "get_token env =
     (case post_access_tokens env of
        Inl e \<Rightarrow> if is_RequestException e then Inr JNull else Inl e
      | Inr token \<Rightarrow> Inr token)"

subsection \<open>\<open>get_last_comment\<close>\<close>

record comment =
  c_text :: pystr
  c_createdAt :: datetime

text \<open>
  The dict display of the comprehension, for one action \<open>c\<close>:
  \<open>{"text": clean_comment(c["data"]["text"]),
    "createdAt": fromisoformat(c["createdAt"].replace("Z", ""))}\<close>.
  \<open>re.sub\<close> raises \<open>TypeError\<close> on an object that is not a string.
\<close>

definition parse_comment :: "env \<Rightarrow> json \<Rightarrow> exn + comment" where
  "parse_comment env c =
     bindE (getitem c (lit ''data'')) (\<lambda>data.
     bindE (getitem data (lit ''text'')) (\<lambda>t.
     bindE (case t of JStr s \<Rightarrow> Inr (clean_comment s) | _ \<Rightarrow> Inl TypeError) (\<lambda>text.
     bindE (getitem c (lit ''createdAt'')) (\<lambda>created.
     bindE (replace_Z created) (\<lambda>s.
     case fromisoformat env s of
       None \<Rightarrow> Inl ValueError
     | Some dt \<Rightarrow> Inr \<lparr>c_text = text, c_createdAt = dt\<rparr>)))))"

text \<open>\<open>[... for c in response["items"] if c["type"] == "commentCard"]\<close>\<close>

fun comments_of :: "env \<Rightarrow> json list \<Rightarrow> exn + comment list" where
  "comments_of env [] = Inr []"
| "comments_of env (c # cs) =
     bindE (getitem c (lit ''type'')) (\<lambda>ty.
       if py_eq ty (JStr (lit ''commentCard''))
       then bindE (parse_comment env c) (\<lambda>x.
            bindE (comments_of env cs) (\<lambda>xs. Inr (x # xs)))
       else comments_of env cs)"

text \<open>
  \<open>comments.sort(key=lambda x: x["createdAt"], reverse=True)\<close>: a stable sort, in
  descending order (the list is reversed, sorted in ascending order and reversed
  again).  Sorting a list that holds a naive and an aware datetime raises
  \<open>TypeError\<close>.
\<close>

definition sort_reverse :: "comment list \<Rightarrow> exn + comment list" where
  "sort_reverse cs =
     (if list_ex (\<lambda>a. list_ex (\<lambda>b. \<not> dt_comparable (c_createdAt a) (c_createdAt b)) cs) cs
      then Inl TypeError
      else Inr (rev (sort_key (\<lambda>c. dt_key (c_createdAt c)) (rev cs))))"

text \<open>\<open>text[:50]\<close>, the limit of 50 characters on the comment that is returned.\<close>

definition first_50 :: "pystr \<Rightarrow> pystr" where
  "first_50 s = take 50 s"

text \<open>The body of the \<open>try\<close> of \<open>get_last_comment\<close>.\<close>

definition last_comment_body :: "env \<Rightarrow> json \<Rightarrow> json \<Rightarrow> exn + pystr" where
  "last_comment_body env token card_id =
     bindE (requests_get_json env (CardActions card_id) token) (\<lambda>response.
     bindE (contains (lit ''items'') response) (\<lambda>has_items.
     if \<not> has_items then Inr []
     else
       bindE (getitem response (lit ''items'')) (\<lambda>items.
       bindE (iter items) (\<lambda>cs.
       bindE (comments_of env cs) (\<lambda>comments.
       if comments \<noteq> [] then
         bindE (sort_reverse comments) (\<lambda>sorted.
         case sorted of
           [] \<Rightarrow> Inl IndexError
         | c # _ \<Rightarrow> Inr (first_50 (c_text c)))
       else Inr [])))))"

text \<open>
  \<open>except requests.RequestException: return ""\<close> and
  \<open>except ValueError: return ""\<close>; any other exception leaves the function.
\<close>

definition get_last_comment :: "env \<Rightarrow> json \<Rightarrow> json \<Rightarrow> exn + pystr" where
  "get_last_comment env token card_id =
     (case last_comment_body env token card_id of
        Inl e \<Rightarrow> if is_RequestException e \<or> is_ValueError e then Inr [] else Inl e
      | Inr s \<Rightarrow> Inr s)"

subsection \<open>\<open>get_due_cards\<close>\<close>

text \<open>
  The result: a dict from project name to a dict from board name to the list of
  \<open>(short_name, date string, comment)\<close>.  A dict with keys that are objects is an
  association list in insertion order; keys are looked up by \<open>==\<close>.
\<close>

type_synonym entry = "json \<times> pystr \<times> pystr"
type_synonym boards = "(json \<times> entry list) list"
type_synonym report = "(json \<times> boards) list"

fun dict_find :: "json \<Rightarrow> (json \<times> 'v) list \<Rightarrow> 'v option" where
  "dict_find k [] = None"
| "dict_find k ((k', v) # d) = (if py_eq k k' then Some v else dict_find k d)"

text \<open>\<open>d[k] = v\<close>: a new key is added at the end, a known key keeps its place.\<close>

fun dict_set :: "json \<Rightarrow> 'v \<Rightarrow> (json \<times> 'v) list \<Rightarrow> (json \<times> 'v) list" where
  "dict_set k v [] = [(k, v)]"
| "dict_set k v ((k', v') # d) =
     (if py_eq k k' then (k', v) # d else (k', v') # dict_set k v d)"

text \<open>
  \<open>if project_name not in result: result[project_name] = {}\<close>,
  \<open>if board_name not in result[project_name]: result[project_name][board_name] = []\<close>,
  \<open>result[project_name][board_name].append(e)\<close>.
  A key test on a dict hashes the key.
\<close>

definition add_entry :: "json \<Rightarrow> json \<Rightarrow> entry \<Rightarrow> report \<Rightarrow> exn + report" where
  "add_entry project_name board_name e result =
     (if \<not> hashable project_name then Inl TypeError
      else
        let bs = (case dict_find project_name result of None \<Rightarrow> [] | Some b \<Rightarrow> b) in
        if \<not> hashable board_name then Inl TypeError
        else
          let es = (case dict_find board_name bs of None \<Rightarrow> [] | Some l \<Rightarrow> l) in
          Inr (dict_set project_name (dict_set board_name (es @ [e]) bs) result))"

text \<open>
  \<open>(card["name"][:30] + "...") if len(card["name"]) > 30 else card["name"]\<close>.
  A long list cannot be concatenated with a string, and a dict cannot be sliced
  (\<open>TypeError\<close>; \<open>KeyError\<close> from Python 3.12 on).
\<close>

definition short_name :: "json \<Rightarrow> exn + json" where
  "short_name crd =
     bindE (getitem crd (lit ''name'')) (\<lambda>name.
     bindE (len name) (\<lambda>n.
     if n > 30 then
       (case name of
          JStr s \<Rightarrow> Inr (JStr (take 30 s @ lit ''...''))
        | _ \<Rightarrow> Inl TypeError)
     else Inr name))"

text \<open>
  \<open>"listId" not in card or card["listId"] not in valid_list_ids\<close>: the second
  operand is evaluated only when the first is false.
\<close>

definition not_in_valid_list :: "json list \<Rightarrow> json \<Rightarrow> exn + bool" where
  "not_in_valid_list valid_list_ids crd =
     bindE (contains (lit ''listId'') crd) (\<lambda>has_list.
     if \<not> has_list then Inr True
     else
       bindE (getitem crd (lit ''listId'')) (\<lambda>list_id.
       bindE (set_contains list_id valid_list_ids) (\<lambda>b. Inr (\<not> b))))"

text \<open>
  \<open>fromisoformat(due_date.replace("Z", "")).replace(tzinfo=timezone.utc)
    .astimezone(TIMEZONE)\<close>
\<close>

definition due_date_obj :: "env \<Rightarrow> json \<Rightarrow> exn + datetime" where
  "due_date_obj env due_date =
     bindE (replace_Z due_date) (\<lambda>s.
     case fromisoformat env s of
       None \<Rightarrow> Inl ValueError
     | Some dt \<Rightarrow> astimezone (TIMEZONE env) (replace_tzinfo_utc dt))"

text \<open>The body of \<open>for card in cards\<close>; \<open>continue\<close> leaves \<open>result\<close> as it is.\<close>

definition process_card ::
  "env \<Rightarrow> json \<Rightarrow> date \<Rightarrow> date \<Rightarrow> json \<Rightarrow> json \<Rightarrow> json list \<Rightarrow> report \<Rightarrow> json
     \<Rightarrow> exn + report" where
  "process_card env token start_date end_date project_name board_name valid_list_ids
       result crd =
     bindE (not_in_valid_list valid_list_ids crd) (\<lambda>skip.
     if skip then Inr result
     else
       bindE (dict_get crd (lit ''dueDate'') JNull) (\<lambda>due_date.
       bindE (dict_get crd (lit ''isDueDateCompleted'') (JBool False)) (\<lambda>completed.
       if truthy due_date \<and> \<not> truthy completed then
         bindE (due_date_obj env due_date) (\<lambda>obj.
         if start_date \<le> dt_date obj \<and> dt_date obj \<le> end_date then
           bindE (short_name crd) (\<lambda>name.
           bindE (getitem crd (lit ''id'')) (\<lambda>card_id.
           bindE (get_last_comment env token card_id) (\<lambda>comment.
           add_entry project_name board_name (name, strftime obj, comment) result)))
         else Inr result)
       else Inr result)))"

text \<open>\<open>valid_list_ids = {lst["id"] for lst in included_lists}\<close>\<close>

fun list_ids :: "json list \<Rightarrow> exn + json list" where
  "list_ids [] = Inr []"
| "list_ids (lst # lsts) =
     bindE (getitem lst (lit ''id'')) (\<lambda>i.
     if \<not> hashable i then Inl TypeError
     else bindE (list_ids lsts) (\<lambda>ids. Inr (i # ids)))"

text \<open>The body of \<open>for board in filtered_boards\<close>.\<close>

definition process_board ::
  "env \<Rightarrow> json \<Rightarrow> date \<Rightarrow> date \<Rightarrow> json \<Rightarrow> report \<Rightarrow> json \<Rightarrow> exn + report" where
  "process_board env token start_date end_date project_name result board =
     bindE (getitem board (lit ''name'')) (\<lambda>board_name.
     bindE (getitem board (lit ''id'')) (\<lambda>board_id.
     bindE (requests_get_json env (Board board_id) token) (\<lambda>board_response.
     bindE (getitem board_response (lit ''included'')) (\<lambda>included.
     bindE (getitem included (lit ''lists'')) (\<lambda>included_lists.
     bindE (iter included_lists) (\<lambda>lsts.
     bindE (list_ids lsts) (\<lambda>valid_list_ids.
     bindE (getitem included (lit ''cards'')) (\<lambda>cards.
     bindE (iter cards) (\<lambda>cs.
     foldE (process_card env token start_date end_date project_name board_name
              valid_list_ids) result cs)))))))))"

text \<open>\<open>filtered_boards = [b for b in boards if b["id"] in BOARD_IDS]\<close>\<close>

fun filter_boards :: "env \<Rightarrow> json list \<Rightarrow> exn + json list" where
  "filter_boards env [] = Inr []"
| "filter_boards env (b # bs) =
     bindE (getitem b (lit ''id'')) (\<lambda>i.
     bindE (filter_boards env bs) (\<lambda>rest.
     Inr (if list_contains i (BOARD_IDS env) then b # rest else rest)))"

text \<open>The body of \<open>for project in projects\<close>.\<close>

definition process_project ::
  "env \<Rightarrow> json \<Rightarrow> date \<Rightarrow> date \<Rightarrow> report \<Rightarrow> json \<Rightarrow> exn + report" where
  "process_project env token start_date end_date result project =
     bindE (getitem project (lit ''name'')) (\<lambda>project_name.
     bindE (getitem project (lit ''id'')) (\<lambda>project_id.
     bindE (requests_get_json env (Project project_id) token) (\<lambda>boards_response.
     bindE (getitem boards_response (lit ''included'')) (\<lambda>included.
     bindE (getitem included (lit ''boards'')) (\<lambda>boards.
     bindE (iter boards) (\<lambda>bs.
     bindE (filter_boards env bs) (\<lambda>filtered_boards.
     foldE (process_board env token start_date end_date project_name) result
       filtered_boards)))))))"

definition get_due_cards :: "env \<Rightarrow> json \<Rightarrow> date \<Rightarrow> date \<Rightarrow> exn + report" where
  "get_due_cards env token start_date end_date =
     bindE (requests_get_json env Projects token) (\<lambda>projects_response.
     bindE (getitem projects_response (lit ''items'')) (\<lambda>projects.
     bindE (iter projects) (\<lambda>ps.
     foldE (process_project env token start_date end_date) [] ps)))"

subsection \<open>\<open>send_tasks\<close>\<close>

text \<open>
  The texts of the three buttons that \<open>send_tasks\<close> is registered for.  Each starts
  with the calendar sign as the source file spells it (code points 240, 376, 8212,
  8220) and a space.
\<close>

definition calendar_sign :: pystr where
  "calendar_sign = [240, 376, 8212, 8220, 32]"

definition button_today :: pystr where
  "button_today = calendar_sign @ lit ''Tasks for today''"

definition button_tomorrow :: pystr where
  "button_tomorrow = calendar_sign @ lit ''Tomorrow's tasks''"

definition button_week :: pystr where
  "button_week = calendar_sign @ lit ''Tasks for the week''"

text \<open>
  The \<open>if\<close>/\<open>elif\<close>/\<open>else\<close> of \<open>send_tasks\<close> that chooses \<open>(start_date, end_date)\<close>
  from the message text and today's date in the display timezone.
\<close>

definition select_window :: "pystr \<Rightarrow> date \<Rightarrow> exn + date \<times> date" where
  "select_window text today =
     (if str_contains (lit ''today'') text then Inr (date_min, today)
      else if str_contains (lit ''tomorrow'') text then
        bindE (date_add_days today 1) (\<lambda>start_date.
        bindE (date_add_days today 1) (\<lambda>end_date. Inr (start_date, end_date)))
      else bindE (date_add_days today 7) (\<lambda>end_date. Inr (date_min, end_date)))"

text \<open>
  What the handler replies: the fixed message for an empty result, or the rendering
  of the tasks (the rendering itself is not modelled; a non-empty result renders to
  a non-empty text).
\<close>

datatype reply = NoTasks | TaskList report

definition send_tasks :: "env \<Rightarrow> pystr \<Rightarrow> date \<Rightarrow> exn + reply" where
  "send_tasks env text today =
     bindE (select_window text today) (\<lambda>(start_date, end_date).
     bindE (get_token env) (\<lambda>token.
     bindE (get_due_cards env token start_date end_date) (\<lambda>tasks.
     Inr (if tasks = [] then NoTasks else TaskList tasks))))"

section \<open>Notions used in the statements\<close>

text \<open>
  A string is \<open>collapsed\<close> when its only whitespace characters are single spaces,
  none next to another whitespace character.
\<close>

fun collapsed :: "pystr \<Rightarrow> bool" where
  "collapsed [] = True"
| "collapsed (c # cs) =
     (if isspace c
      then c = 32 \<and> (case cs of [] \<Rightarrow> True | d # _ \<Rightarrow> \<not> isspace d) \<and> collapsed cs
      else collapsed cs)"

text \<open>An object is a dict that has the key.\<close>

definition has_key :: "json \<Rightarrow> pystr \<Rightarrow> bool" where
  "has_key j k = (case j of JObj kvs \<Rightarrow> map_of kvs k \<noteq> None | _ \<Rightarrow> False)"

text \<open>The number of card entries of a report, over all projects and boards.\<close>

definition entries_count :: "report \<Rightarrow> nat" where
  "entries_count r = sum_list (map (\<lambda>(p, bs). sum_list (map (\<lambda>(b, es). length es) bs)) r)"

text \<open>No project of the report has an empty dict of boards, no board an empty list.\<close>

definition no_empty_groups :: "report \<Rightarrow> bool" where
  "no_empty_groups r = list_all (\<lambda>(p, bs). bs \<noteq> [] \<and> list_all (\<lambda>(b, es). es \<noteq> []) bs) r"

text \<open>
  The inclusion predicate of a card, in the words of the specification: the card's
  \<open>listId\<close> is present and is one of the board's list ids; its \<open>dueDate\<close> is present
  (a value that counts as true: not \<open>None\<close>, not empty); its \<open>isDueDateCompleted\<close>
  is false (absent, or a value that counts as false); and the calendar date of the
  due date in the display timezone lies between \<open>start_date\<close> and \<open>end_date\<close>, both
  included.
\<close>

definition due_relevant :: "env \<Rightarrow> json list \<Rightarrow> date \<Rightarrow> date \<Rightarrow> json \<Rightarrow> bool" where
  "due_relevant env valid_list_ids start_date end_date crd =
     (case crd of
        JObj kvs \<Rightarrow>
          (case map_of kvs (lit ''listId'') of
             None \<Rightarrow> False
           | Some l \<Rightarrow> list_ex (py_eq l) valid_list_ids) \<and>
          (case map_of kvs (lit ''dueDate'') of
             None \<Rightarrow> False
           | Some d \<Rightarrow>
               truthy d \<and>
               (case due_date_obj env d of
                  Inl e \<Rightarrow> False
                | Inr obj \<Rightarrow> start_date \<le> dt_date obj \<and> dt_date obj \<le> end_date)) \<and>
          (case map_of kvs (lit ''isDueDateCompleted'') of
             None \<Rightarrow> True
           | Some c \<Rightarrow> \<not> truthy c)
      | _ \<Rightarrow> False)"

text \<open>
  What \<open>get_due_cards\<close> reads before each of its loops: the projects; for a project
  its name and its boards of the allow-list; for a board its name, the ids of its
  lists and its cards.
\<close>

definition projects_scan :: "env \<Rightarrow> json \<Rightarrow> exn + json list" where
  "projects_scan env token =
     bindE (requests_get_json env Projects token) (\<lambda>projects_response.
     bindE (getitem projects_response (lit ''items'')) iter)"

definition project_scan :: "env \<Rightarrow> json \<Rightarrow> json \<Rightarrow> exn + json \<times> json list" where
  "project_scan env token project =
     bindE (getitem project (lit ''name'')) (\<lambda>project_name.
     bindE (getitem project (lit ''id'')) (\<lambda>project_id.
     bindE (requests_get_json env (Project project_id) token) (\<lambda>boards_response.
     bindE (getitem boards_response (lit ''included'')) (\<lambda>included.
     bindE (getitem included (lit ''boards'')) (\<lambda>boards.
     bindE (iter boards) (\<lambda>bs.
     bindE (filter_boards env bs) (\<lambda>filtered_boards.
     Inr (project_name, filtered_boards))))))))"

definition board_scan :: "env \<Rightarrow> json \<Rightarrow> json \<Rightarrow> exn + json \<times> json list \<times> json list" where
  "board_scan env token board =
     bindE (getitem board (lit ''name'')) (\<lambda>board_name.
     bindE (getitem board (lit ''id'')) (\<lambda>board_id.
     bindE (requests_get_json env (Board board_id) token) (\<lambda>board_response.
     bindE (getitem board_response (lit ''included'')) (\<lambda>included.
     bindE (getitem included (lit ''lists'')) (\<lambda>included_lists.
     bindE (iter included_lists) (\<lambda>lsts.
     bindE (list_ids lsts) (\<lambda>valid_list_ids.
     bindE (getitem included (lit ''cards'')) (\<lambda>cards.
     bindE (iter cards) (\<lambda>cs.
     Inr (board_name, valid_list_ids, cs))))))))))"

text \<open>
  The cards that a run of \<open>get_due_cards\<close> scans, each with the name of its project,
  the name of its board and the list ids of its board, in the order of the
  traversal.
\<close>

definition scanned_cards :: "env \<Rightarrow> json \<Rightarrow> (json \<times> json \<times> json list \<times> json) list" where
  "scanned_cards env token =
     (case projects_scan env token of
        Inl err \<Rightarrow> []
      | Inr ps \<Rightarrow>
          concat (map (\<lambda>p.
            case project_scan env token p of
              Inl err \<Rightarrow> []
            | Inr (project_name, bs) \<Rightarrow>
                concat (map (\<lambda>b.
                  case board_scan env token b of
                    Inl err \<Rightarrow> []
                  | Inr (board_name, valid_list_ids, cs) \<Rightarrow>
                      map (\<lambda>c. (project_name, board_name, valid_list_ids, c)) cs) bs)) ps))"

section \<open>A sample service\<close>

text \<open>
  A parser that agrees with \<open>fromisoformat\<close> on the timestamps that Planka emits,
  once the \<open>Z\<close> is removed: \<open>YYYY-MM-DDTHH:MM:SS.fff\<close>.  It stands for the library
  function in the concrete instances below.
\<close>

fun number :: "pystr \<Rightarrow> int option" where
  "number [] = Some 0"
| "number (c # cs) =
     (if 48 \<le> c \<and> c \<le> 57
      then (case number cs of None \<Rightarrow> None
            | Some n \<Rightarrow> Some ((int c - 48) * 10 ^ length cs + n))
      else None)"

definition field :: "pystr \<Rightarrow> nat \<Rightarrow> nat \<Rightarrow> int option" where
  "field s i n = number (take n (drop i s))"

definition planka_timestamp :: "pystr \<Rightarrow> datetime option" where
  "planka_timestamp s =
     (if length s = 23 \<and> s ! 4 = 45 \<and> s ! 7 = 45 \<and> s ! 10 = 84 \<and> s ! 13 = 58 \<and>
         s ! 16 = 58 \<and> s ! 19 = 46
      then
        (case (field s 0 4, field s 5 2, field s 8 2, field s 11 2, field s 14 2,
               field s 17 2, field s 20 3) of
           (Some y, Some m, Some d, Some hh, Some mm, Some ss, Some ms) \<Rightarrow>
             if 1 \<le> y \<and> 1 \<le> m \<and> m \<le> 12 \<and> 1 \<le> d \<and>
                d \<le> ymd2ord (if m = 12 then y + 1 else y) (if m = 12 then 1 else m + 1) 1
                      - ymd2ord y m 1 \<and>
                hh < 24 \<and> mm < 60 \<and> ss < 60
             then Some \<lparr>wall = ymd2ord y m d * usec_per_day
                          + ((hh * 60 + mm) * 60 + ss) * 1000000 + ms * 1000,
                        utcoffset = None\<rparr>
             else None
         | _ \<Rightarrow> None)
      else None)"



definition card_fix :: json where
  "card_fix = JObj [(lit ''id'', JStr (lit ''c1'')), (lit ''name'', JStr (lit ''Fix pipeline'')),
     (lit ''listId'', JStr (lit ''l1'')), (lit ''dueDate'', JStr (lit ''2025-06-10T10:00:00.000Z'')),
     (lit ''isDueDateCompleted'', JBool False)]"

definition card_long :: json where
  "card_long = JObj [(lit ''id'', JStr (lit ''c2'')),
     (lit ''name'', JStr (lit ''Write the quarterly report for team'')),
     (lit ''listId'', JStr (lit ''l1'')), (lit ''dueDate'', JStr (lit ''2025-06-09T21:30:00.000Z''))]"

definition card_done :: json where
  "card_done = JObj [(lit ''id'', JStr (lit ''c3'')), (lit ''name'', JStr (lit ''Done'')),
     (lit ''listId'', JStr (lit ''l1'')), (lit ''dueDate'', JStr (lit ''2025-06-10T10:00:00.000Z'')),
     (lit ''isDueDateCompleted'', JBool True)]"

definition card_no_due :: json where
  "card_no_due = JObj [(lit ''id'', JStr (lit ''c4'')), (lit ''name'', JStr (lit ''No due'')),
     (lit ''listId'', JStr (lit ''l1''))]"

definition card_stale :: json where
  "card_stale = JObj [(lit ''id'', JStr (lit ''c5'')), (lit ''name'', JStr (lit ''Stale'')),
     (lit ''listId'', JStr (lit ''l9'')), (lit ''dueDate'', JStr (lit ''2025-06-10T10:00:00.000Z''))]"

definition card_late :: json where
  "card_late = JObj [(lit ''id'', JStr (lit ''c6'')), (lit ''name'', JStr (lit ''Late'')),
     (lit ''listId'', JStr (lit ''l1'')), (lit ''dueDate'', JStr (lit ''2025-06-10T21:00:00.000Z''))]"

definition demo_actions :: json where
  "demo_actions = JObj [(lit ''items'', JArr [
     JObj [(lit ''type'', JStr (lit ''commentCard'')),
           (lit ''data'', JObj [(lit ''text'', JStr (lit ''  first   note ''))]),
           (lit ''createdAt'', JStr (lit ''2025-06-01T08:00:00.000Z''))],
     JObj [(lit ''type'', JStr (lit ''createCard'')), (lit ''data'', JObj []),
           (lit ''createdAt'', JStr (lit ''2025-05-01T08:00:00.000Z''))],
     JObj [(lit ''type'', JStr (lit ''commentCard'')),
           (lit ''data'', JObj [(lit ''text'', JStr (lit ''second  note''))]),
           (lit ''createdAt'', JStr (lit ''2025-06-02T08:00:00.000Z''))]])]"

definition demo_projects :: json where
  "demo_projects = JObj [(lit ''items'',
     JArr [JObj [(lit ''id'', JStr (lit ''p1'')), (lit ''name'', JStr (lit ''Ops''))]])]"

definition demo_project :: json where
  "demo_project = JObj [(lit ''included'', JObj [(lit ''boards'',
     JArr [JObj [(lit ''id'', JStr (lit ''b1'')), (lit ''name'', JStr (lit ''Sprint''))],
           JObj [(lit ''id'', JStr (lit ''b2'')), (lit ''name'', JStr (lit ''Other''))]])])]"

definition demo_board :: json where
  "demo_board = JObj [(lit ''included'', JObj [
     (lit ''lists'', JArr [JObj [(lit ''id'', JStr (lit ''l1''))]]),
     (lit ''cards'', JArr [card_fix, card_long, card_done, card_no_due, card_stale, card_late])])]"

definition demo_planka :: "endpoint \<Rightarrow> json \<Rightarrow> http" where
  "demo_planka ep token =
     (if token = JStr (lit ''tok'') then
        (case ep of
           Projects \<Rightarrow> Response 200 (Some demo_projects)
         | Project i \<Rightarrow> Response 200 (Some demo_project)
         | Board i \<Rightarrow> Response 200 (Some demo_board)
         | CardActions i \<Rightarrow>
             if i = JStr (lit ''c1'') then Response 200 (Some demo_actions)
             else Response 200 (Some (JObj [(lit ''items'', JArr [])])))
      else Response 401 (Some (JObj [(lit ''code'', JStr (lit ''E_UNAUTHORIZED''))])))"

definition demo_env :: env where
  "demo_env = \<lparr>planka = demo_planka,
      access_tokens = Response 200 (Some (JObj [(lit ''item'', JStr (lit ''tok''))])),
      BOARD_IDS = [JStr (lit ''b1'')],
      TIMEZONE = (\<lambda>utc. 10800000000),
      fromisoformat = planka_timestamp\<rparr>"

text \<open>
  The sample service with an action log whose comment entry has no \<open>data\<close> key.
\<close>

definition no_data_env :: env where
  "no_data_env = demo_env\<lparr>planka := (\<lambda>ep token. Response 200 (Some
     (JObj [(lit ''items'', JArr [
        JObj [(lit ''type'', JStr (lit ''commentCard'')),
              (lit ''createdAt'', JStr (lit ''2025-06-01T08:00:00.000Z''))]])])))\<rparr>"

text \<open>The sample service when the token request fails in transport.\<close>

definition no_token_env :: env where
  "no_token_env = demo_env\<lparr>access_tokens := ConnectionFailed\<rparr>"

text \<open>
  The same, with a service that answers every request as it answers the token
  \<open>tok\<close>: it does not check the \<open>Authorization\<close> header.
\<close>

definition lax_env :: env where
  "lax_env = demo_env\<lparr>access_tokens := ConnectionFailed,
     planka := (\<lambda>ep token. demo_planka ep (JStr (lit ''tok'')))\<rparr>"

section \<open>Properties\<close>

subsection \<open>Sequencing\<close>

lemma bindE_Inl [simp]: "bindE (Inl e) f = Inl e"
  by (simp add: bindE_def)

lemma bindE_Inr [simp]: "bindE (Inr x) f = f x"
  by (simp add: bindE_def)

lemma bindE_eq_Inr: "(bindE m f = Inr y) = (\<exists>x. m = Inr x \<and> f x = Inr y)"
  by (cases m) auto

subsection \<open>Whitespace normalisation\<close>

lemma sub_ws_head:
  "sub_ws (dropWhile isspace cs) = [] \<or> \<not> isspace (hd (sub_ws (dropWhile isspace cs)))"
  by (induction cs) auto

lemma collapsed_sub_ws: "collapsed (sub_ws s)"
proof (induction s rule: sub_ws.induct)
  case 1
  show ?case by simp
next
  case (2 c cs)
  show ?case
  proof (cases "isspace c")
    case True
    with 2 have "collapsed (sub_ws (dropWhile isspace cs))" by simp
    with True sub_ws_head[of cs] show ?thesis by (auto split: list.splits)
  next
    case False
    with 2 show ?thesis by simp
  qed
qed

lemma sub_ws_collapsed: "collapsed t \<Longrightarrow> sub_ws t = t"
  by (induction t) (auto split: list.splits if_splits)

lemma collapsed_suffix: "collapsed (xs @ ys) \<Longrightarrow> collapsed ys"
  by (induction xs) (auto split: if_splits)

lemma collapsed_prefix: "collapsed (xs @ ys) \<Longrightarrow> collapsed xs"
  by (induction xs) (auto split: if_splits list.splits)

lemma collapsed_strip:
  assumes "collapsed t"
  shows "collapsed (strip t)"
proof -
  have "collapsed (dropWhile isspace t)"
    using assms collapsed_suffix[of "takeWhile isspace t" "dropWhile isspace t"] by simp
  moreover have "dropWhile isspace t =
      rev (dropWhile isspace (rev (dropWhile isspace t))) @
      rev (takeWhile isspace (rev (dropWhile isspace t)))"
    by (metis rev_append rev_rev_ident takeWhile_dropWhile_id)
  ultimately show ?thesis
    unfolding strip_def using collapsed_prefix by metis
qed

lemma strip_strip: "strip (strip s) = strip s"
proof -
  define u where "u = dropWhile isspace s"
  define v where "v = dropWhile isspace (rev u)"
  have u: "u = [] \<or> \<not> isspace (hd u)"
    unfolding u_def by (metis hd_dropWhile)
  have v: "v = [] \<or> \<not> isspace (hd v)"
    unfolding v_def by (metis hd_dropWhile)
  have "rev v = [] \<or> \<not> isspace (hd (rev v))"
  proof (cases "v = []")
    case True
    then show ?thesis by simp
  next
    case False
    have "rev u = takeWhile isspace (rev u) @ v"
      unfolding v_def by simp
    then have split: "u = rev v @ rev (takeWhile isspace (rev u))"
      by (metis rev_append rev_rev_ident)
    with False have "hd u = hd (rev v)"
      by (metis hd_append2 rev_is_Nil_conv)
    moreover from False split have "u \<noteq> []" by auto
    ultimately show ?thesis using u by simp
  qed
  then have a: "dropWhile isspace (rev v) = rev v"
    by (cases "rev v") auto
  from v have b: "dropWhile isspace v = v"
    by (cases v) auto
  show ?thesis
    unfolding strip_def u_def[symmetric] v_def[symmetric] by (simp add: a b)
qed

lemma clean_comment_collapsed: "collapsed (clean_comment s)"
  by (simp add: clean_comment_def collapsed_strip collapsed_sub_ws)

text \<open>
  Claim C6.  Normalising a comment twice gives the same string as normalising it
  once; and the text that is returned for a comment is its normalised text when
  that has at most 50 characters, and has exactly 50 characters when the
  normalised text is longer.
\<close>

theorem clean_comment_idempotent_first_50:
  "clean_comment (clean_comment s) = clean_comment s \<and>
   (if 50 < length (clean_comment t)
    then length (first_50 (clean_comment t)) = 50
    else first_50 (clean_comment t) = clean_comment t)"
proof -
  have "sub_ws (clean_comment s) = clean_comment s"
    by (rule sub_ws_collapsed) (rule clean_comment_collapsed)
  then have "clean_comment (clean_comment s) = strip (clean_comment s)"
    by (simp add: clean_comment_def)
  also have "\<dots> = clean_comment s"
    by (simp add: clean_comment_def strip_strip)
  finally show ?thesis
    by (simp add: first_50_def)
qed

subsection \<open>Literals and equality\<close>

lemma lit_eq_iff [simp]: "(lit a = lit b) = (a = b)"
  unfolding lit_def by (rule inj_map_eq_map) (simp add: inj_on_def)

lemma lit_Nil_iff [simp]: "(lit s = []) = (s = [])"
  by (simp add: lit_def)

lemma length_lit [simp]: "length (lit s) = length s"
  by (simp add: lit_def)

lemma py_eq_JStr [simp]: "py_eq (JStr a) y = (y = JStr a)"
  by (cases y) (auto simp: py_eq.simps)

lemma py_eq_JStr_right [simp]: "py_eq x (JStr b) = (x = JStr b)"
  by (cases x) (auto simp: py_eq.simps)

subsection \<open>The report\<close>

lemma dict_set_weight:
  "sum_list (map (\<lambda>(k, v). w v) (dict_set k v d))
     + (case dict_find k d of None \<Rightarrow> 0 | Some v0 \<Rightarrow> w v0)
   = sum_list (map (\<lambda>(k, v). w v) d) + (w v :: nat)"
  by (induction d) auto

lemma add_entry_count:
  assumes "add_entry pn bn e r = Inr r'"
  shows "entries_count r' = Suc (entries_count r)"
proof -
  define bs where "bs = (case dict_find pn r of None \<Rightarrow> [] | Some b \<Rightarrow> b)"
  define es where "es = (case dict_find bn bs of None \<Rightarrow> [] | Some l \<Rightarrow> l)"
  define w where "w = (\<lambda>b :: boards. sum_list (map (\<lambda>(b, es). length es) b))"
  from assms have r': "r' = dict_set pn (dict_set bn (es @ [e]) bs) r"
    by (auto simp: add_entry_def Let_def bs_def es_def split: if_splits)
  have "w (dict_set bn (es @ [e]) bs) + (case dict_find bn bs of None \<Rightarrow> 0 | Some v0 \<Rightarrow> length v0)
      = w bs + length (es @ [e])"
    unfolding w_def by (rule dict_set_weight)
  moreover have "(case dict_find bn bs of None \<Rightarrow> 0 | Some v0 \<Rightarrow> length v0) = length es"
    by (simp add: es_def split: option.splits)
  ultimately have inner: "w (dict_set bn (es @ [e]) bs) = Suc (w bs)" by simp
  have "sum_list (map (\<lambda>(k, v). w v) r') + (case dict_find pn r of None \<Rightarrow> 0 | Some v0 \<Rightarrow> w v0)
      = sum_list (map (\<lambda>(k, v). w v) r) + w (dict_set bn (es @ [e]) bs)"
    unfolding r' by (rule dict_set_weight)
  moreover have "(case dict_find pn r of None \<Rightarrow> 0 | Some v0 \<Rightarrow> w v0) = w bs"
    by (simp add: bs_def w_def split: option.splits)
  ultimately show ?thesis
    using inner by (simp add: entries_count_def w_def)
qed

lemma dict_find_all:
  "list_all (\<lambda>(k, v). P v) d \<Longrightarrow> dict_find k d = Some v \<Longrightarrow> P v"
  by (induction d) (auto split: if_splits)

lemma dict_set_all:
  "list_all (\<lambda>(k, v). P v) d \<Longrightarrow> P v \<Longrightarrow> list_all (\<lambda>(k, v). P v) (dict_set k v d)"
  by (induction d) auto

lemma dict_set_not_Nil [simp]: "dict_set k v d \<noteq> []"
  by (cases d) (auto split: if_splits)

lemma add_entry_no_empty_groups:
  assumes "add_entry pn bn e r = Inr r'" and "no_empty_groups r"
  shows "no_empty_groups r'"
proof -
  define bs where "bs = (case dict_find pn r of None \<Rightarrow> [] | Some b \<Rightarrow> b)"
  define es where "es = (case dict_find bn bs of None \<Rightarrow> [] | Some l \<Rightarrow> l)"
  define P where "P = (\<lambda>b :: boards. b \<noteq> [] \<and> list_all (\<lambda>(b, es). es \<noteq> []) b)"
  from assms(1) have r': "r' = dict_set pn (dict_set bn (es @ [e]) bs) r"
    by (auto simp: add_entry_def Let_def bs_def es_def split: if_splits)
  from assms(2) have all: "list_all (\<lambda>(k, v). P v) r"
    by (simp add: no_empty_groups_def P_def)
  have "list_all (\<lambda>(b, es). es \<noteq> []) bs"
  proof (cases "dict_find pn r")
    case None
    then show ?thesis by (simp add: bs_def)
  next
    case (Some b)
    with dict_find_all[OF all Some] show ?thesis by (simp add: bs_def P_def)
  qed
  then have "list_all (\<lambda>(b, es). es \<noteq> []) (dict_set bn (es @ [e]) bs)"
    by (rule dict_set_all) simp
  then have "P (dict_set bn (es @ [e]) bs)"
    by (simp add: P_def)
  with all have "list_all (\<lambda>(k, v). P v) r'"
    unfolding r' by (rule dict_set_all)
  then show ?thesis
    by (simp add: no_empty_groups_def P_def)
qed

lemma no_empty_groups_count:
  "no_empty_groups r \<Longrightarrow> (r = []) = (entries_count r = 0)"
  by (cases r; cases "snd (hd r)"; cases "snd (hd (snd (hd r)))")
     (auto simp: no_empty_groups_def entries_count_def)

subsection \<open>The loop body of \<open>get_due_cards\<close>\<close>

lemma has_key_getitem: "has_key j k = (\<exists>v. getitem j k = Inr v)"
  by (cases j) (auto simp: has_key_def split: option.splits)

text \<open>The loop body on a card that is not a dict: skipped or an exception.\<close>

lemma not_in_valid_list_Inr:
  "not_in_valid_list valid crd = Inr skip \<Longrightarrow>
   skip = (\<not> (case crd of
                JObj kvs \<Rightarrow> (case map_of kvs (lit ''listId'') of
                              None \<Rightarrow> False | Some l \<Rightarrow> list_ex (py_eq l) valid)
              | _ \<Rightarrow> False))"
  by (cases crd)
     (auto simp: not_in_valid_list_def set_contains_def bindE_eq_Inr
           split: if_splits option.splits)

lemma not_in_valid_list_dict:
  "not_in_valid_list valid crd = Inr False \<Longrightarrow> \<exists>kvs. crd = JObj kvs"
  by (cases crd)
     (auto simp: not_in_valid_list_def set_contains_def bindE_eq_Inr
           split: if_splits option.splits)

lemma process_card_skip:
  assumes "process_card env token s e pn bn valid result crd = Inr result'"
    and "\<not> due_relevant env valid s e crd"
  shows "result' = result"
proof -
  from assms(1) obtain skip where skip: "not_in_valid_list valid crd = Inr skip"
    by (auto simp: process_card_def bindE_eq_Inr)
  show ?thesis
  proof (cases skip)
    case True
    with assms(1) skip show ?thesis by (simp add: process_card_def)
  next
    case False
    with skip have "not_in_valid_list valid crd = Inr False" by simp
    then obtain kvs where crd: "crd = JObj kvs"
      using not_in_valid_list_dict by blast
    from skip False have lst: "(case map_of kvs (lit ''listId'') of
                              None \<Rightarrow> False | Some l \<Rightarrow> list_ex (py_eq l) valid)"
      using not_in_valid_list_Inr[OF skip] by (simp add: crd)
    with assms(2) have rest: "\<not> ((case map_of kvs (lit ''dueDate'') of
             None \<Rightarrow> False
           | Some d \<Rightarrow>
               truthy d \<and>
               (case due_date_obj env d of
                  Inl e \<Rightarrow> False
                | Inr obj \<Rightarrow> s \<le> dt_date obj \<and> dt_date obj \<le> e)) \<and>
          (case map_of kvs (lit ''isDueDateCompleted'') of
             None \<Rightarrow> True
           | Some c \<Rightarrow> \<not> truthy c))"
      by (simp add: due_relevant_def crd)
    from assms(1) skip False rest show ?thesis
      by (auto simp: process_card_def crd bindE_eq_Inr split: if_splits option.splits sum.splits)
  qed
qed

lemma process_card_add:
  assumes "process_card env token s e pn bn valid result crd = Inr result'"
    and "due_relevant env valid s e crd"
  shows "\<exists>d obj name card_id comment.
           getitem crd (lit ''dueDate'') = Inr d \<and> due_date_obj env d = Inr obj \<and>
           short_name crd = Inr name \<and> getitem crd (lit ''id'') = Inr card_id \<and>
           get_last_comment env token card_id = Inr comment \<and>
           add_entry pn bn (name, strftime obj, comment) result = Inr result'"
proof -
  from assms(2) obtain kvs where crd: "crd = JObj kvs"
    by (cases crd) (auto simp: due_relevant_def)
  from assms(2) obtain l d obj where
    l: "map_of kvs (lit ''listId'') = Some l" "list_ex (py_eq l) valid" and
    d: "map_of kvs (lit ''dueDate'') = Some d" "truthy d" "due_date_obj env d = Inr obj"
       "s \<le> dt_date obj" "dt_date obj \<le> e" and
    c: "(case map_of kvs (lit ''isDueDateCompleted'') of None \<Rightarrow> True | Some c \<Rightarrow> \<not> truthy c)"
    by (auto simp: due_relevant_def crd split: option.splits sum.splits)
  from assms(1) obtain skip where skip: "not_in_valid_list valid crd = Inr skip"
    by (auto simp: process_card_def bindE_eq_Inr)
  with l have "skip = False"
    using not_in_valid_list_Inr[OF skip] by (simp add: crd)
  with assms(1) skip d c show ?thesis
    by (auto simp: process_card_def crd bindE_eq_Inr split: option.splits)
qed

text \<open>
  Claim C1.  When the loop body of \<open>get_due_cards\<close> returns for a scanned card, the
  card has added one entry to the result if and only if it satisfies the inclusion
  predicate (\<open>listId\<close> present and among the board's list ids, \<open>dueDate\<close> present,
  \<open>isDueDateCompleted\<close> false, and \<open>start_date \<le> date \<le> end_date\<close> for the
  calendar date of the due date in the display timezone, both bounds included);
  otherwise the result is unchanged.
\<close>

theorem card_contributes_iff_due_relevant:
  assumes "process_card env token start_date end_date project_name board_name valid_list_ids
             result crd = Inr result'"
  shows "(entries_count result' = Suc (entries_count result))
           = due_relevant env valid_list_ids start_date end_date crd \<and>
         (result' = result)
           = (\<not> due_relevant env valid_list_ids start_date end_date crd)"
proof (cases "due_relevant env valid_list_ids start_date end_date crd")
  case True
  from process_card_add[OF assms True] obtain entry where
    "add_entry project_name board_name entry result = Inr result'" by blast
  then have "entries_count result' = Suc (entries_count result)"
    by (rule add_entry_count)
  with True show ?thesis by auto
next
  case False
  with process_card_skip[OF assms False] show ?thesis by simp
qed

subsection \<open>The sample service, evaluated\<close>

lemma ts1: "planka_timestamp (remove_Z (lit ''2025-06-10T10:00:00.000Z'')) =
    Some \<lparr>wall = 63885232800000000, utcoffset = None\<rparr>"
  by (simp add: planka_timestamp_def remove_Z_def lit_def field_def ymd2ord_def usec_per_day_def)

lemma env_simps [simp]:
  "planka demo_env = demo_planka" "fromisoformat demo_env = planka_timestamp"
  "TIMEZONE demo_env = (\<lambda>utc. 10800000000)" "BOARD_IDS demo_env = [JStr (lit ''b1'')]"
  by (simp_all add: demo_env_def)

lemma due1: "due_date_obj demo_env (JStr (lit ''2025-06-10T10:00:00.000Z'')) =
   Inr \<lparr>wall = 63885243600000000, utcoffset = Some 10800000000\<rparr>"
  by (simp add: due_date_obj_def ts1 astimezone_def replace_tzinfo_utc_def usec_per_day_def
        date_min_def date_max_def)

lemma fmt1: "strftime \<lparr>wall = 63885243600000000, utcoffset = Some 10800000000\<rparr> = lit ''10-06-2025 13:00''"
  by code_simp

lemma cc1: "clean_comment (lit ''  first   note '') = lit ''first note''"
  by (simp add: clean_comment_def strip_def isspace_def lit_def)

lemma cc2: "clean_comment (lit ''second  note'') = lit ''second note''"
  by (simp add: clean_comment_def strip_def isspace_def lit_def)

lemma ts2: "planka_timestamp (remove_Z (lit ''2025-06-01T08:00:00.000Z'')) =
    Some \<lparr>wall = 63884448000000000, utcoffset = None\<rparr>"
  by (simp add: planka_timestamp_def remove_Z_def lit_def field_def ymd2ord_def usec_per_day_def)

lemma ts3: "planka_timestamp (remove_Z (lit ''2025-06-02T08:00:00.000Z'')) =
    Some \<lparr>wall = 63884534400000000, utcoffset = None\<rparr>"
  by (simp add: planka_timestamp_def remove_Z_def lit_def field_def ymd2ord_def usec_per_day_def)

lemma actions1: "requests_get_json demo_env (CardActions (JStr (lit ''c1''))) (JStr (lit ''tok'')) = Inr demo_actions"
  by (simp add: requests_get_json_def demo_planka_def)

lemma comments1: "comments_of demo_env
   [JObj [(lit ''type'', JStr (lit ''commentCard'')),
           (lit ''data'', JObj [(lit ''text'', JStr (lit ''  first   note ''))]),
           (lit ''createdAt'', JStr (lit ''2025-06-01T08:00:00.000Z''))],
     JObj [(lit ''type'', JStr (lit ''createCard'')), (lit ''data'', JObj []),
           (lit ''createdAt'', JStr (lit ''2025-05-01T08:00:00.000Z''))],
     JObj [(lit ''type'', JStr (lit ''commentCard'')),
           (lit ''data'', JObj [(lit ''text'', JStr (lit ''second  note''))]),
           (lit ''createdAt'', JStr (lit ''2025-06-02T08:00:00.000Z''))]]
  = Inr [\<lparr>c_text = lit ''first note'', c_createdAt = \<lparr>wall = 63884448000000000, utcoffset = None\<rparr>\<rparr>,
         \<lparr>c_text = lit ''second note'', c_createdAt = \<lparr>wall = 63884534400000000, utcoffset = None\<rparr>\<rparr>]"
  by (simp add: parse_comment_def cc1 cc2 ts2 ts3)

lemma ts_long: "planka_timestamp (remove_Z (lit ''2025-06-09T21:30:00.000Z'')) =
    Some \<lparr>wall = 63885187800000000, utcoffset = None\<rparr>"
  by (simp add: planka_timestamp_def remove_Z_def lit_def field_def ymd2ord_def usec_per_day_def)

lemma due_long: "due_date_obj demo_env (JStr (lit ''2025-06-09T21:30:00.000Z'')) =
   Inr \<lparr>wall = 63885198600000000, utcoffset = Some 10800000000\<rparr>"
  by (simp add: due_date_obj_def ts_long astimezone_def replace_tzinfo_utc_def usec_per_day_def
        date_min_def date_max_def)

lemma fmt_long: "strftime \<lparr>wall = 63885198600000000, utcoffset = Some 10800000000\<rparr> = lit ''10-06-2025 00:30''"
  by code_simp

lemma date_long: "dt_date \<lparr>wall = 63885198600000000, utcoffset = Some 10800000000\<rparr> = 739412"
  by (simp add: dt_date_def usec_per_day_def)

lemma card_long_fields:
  "not_in_valid_list [JStr (lit ''l1'')] card_long = Inr False"
  "dict_get card_long (lit ''dueDate'') JNull = Inr (JStr (lit ''2025-06-09T21:30:00.000Z''))"
  "dict_get card_long (lit ''isDueDateCompleted'') (JBool False) = Inr (JBool False)"
  "getitem card_long (lit ''id'') = Inr (JStr (lit ''c2''))"
  by (simp_all add: card_long_def not_in_valid_list_def set_contains_def)

lemma short_long: "short_name card_long = Inr (JStr (lit ''Write the quarterly report for...''))"
  by (simp add: short_name_def card_long_def lit_def)

lemma comment_long: "get_last_comment demo_env (JStr (lit ''tok'')) (JStr (lit ''c2'')) = Inr []"
  by (simp add: get_last_comment_def last_comment_body_def requests_get_json_def demo_planka_def)

lemma process_card_long:
  "process_card demo_env (JStr (lit ''tok'')) 739412 739412 (JStr (lit ''Ops'')) (JStr (lit ''Sprint''))
     [JStr (lit ''l1'')] [] card_long =
   Inr [(JStr (lit ''Ops''), [(JStr (lit ''Sprint''),
          [(JStr (lit ''Write the quarterly report for...''), lit ''10-06-2025 00:30'', [])])])]"
  by (simp add: process_card_def card_long_fields due_long date_long short_long comment_long
        fmt_long add_entry_def)

lemma ts_late: "planka_timestamp (remove_Z (lit ''2025-06-10T21:00:00.000Z'')) =
    Some \<lparr>wall = 63885272400000000, utcoffset = None\<rparr>"
  by (simp add: planka_timestamp_def remove_Z_def lit_def field_def ymd2ord_def usec_per_day_def)

lemma due_late: "due_date_obj demo_env (JStr (lit ''2025-06-10T21:00:00.000Z'')) =
   Inr \<lparr>wall = 63885283200000000, utcoffset = Some 10800000000\<rparr>"
  by (simp add: due_date_obj_def ts_late astimezone_def replace_tzinfo_utc_def usec_per_day_def
        date_min_def date_max_def)

lemma date_late: "dt_date \<lparr>wall = 63885283200000000, utcoffset = Some 10800000000\<rparr> = 739413"
  by (simp add: dt_date_def usec_per_day_def)

lemma card_late_fields:
  "not_in_valid_list [JStr (lit ''l1'')] card_late = Inr False"
  "dict_get card_late (lit ''dueDate'') JNull = Inr (JStr (lit ''2025-06-10T21:00:00.000Z''))"
  "dict_get card_late (lit ''isDueDateCompleted'') (JBool False) = Inr (JBool False)"
  by (simp_all add: card_late_def not_in_valid_list_def set_contains_def)

lemma process_card_late:
  "process_card demo_env (JStr (lit ''tok'')) 739412 739412 (JStr (lit ''Ops'')) (JStr (lit ''Sprint''))
     [JStr (lit ''l1'')] [] card_late = Inr []"
  by (simp add: process_card_def card_late_fields due_late date_late)

text \<open>
  An instance with the window \<open>[2025-06-10, 2025-06-10]\<close> and the display timezone
  UTC+3: a card due at 2025-06-09 21:30 UTC (00:30 on the 10th, local) is included; a
  card due at 2025-06-10 21:00 UTC (00:00 on the 11th, local) is not.
\<close>

theorem card_contributes_witness:
  "process_card demo_env (JStr (lit ''tok'')) 739412 739412 (JStr (lit ''Ops''))
      (JStr (lit ''Sprint'')) [JStr (lit ''l1'')] [] card_long =
     Inr [(JStr (lit ''Ops''), [(JStr (lit ''Sprint''),
            [(JStr (lit ''Write the quarterly report for...''), lit ''10-06-2025 00:30'', [])])])] \<and>
   due_relevant demo_env [JStr (lit ''l1'')] 739412 739412 card_long \<and>
   process_card demo_env (JStr (lit ''tok'')) 739412 739412 (JStr (lit ''Ops''))
      (JStr (lit ''Sprint'')) [JStr (lit ''l1'')] [] card_late = Inr [] \<and>
   \<not> due_relevant demo_env [JStr (lit ''l1'')] 739412 739412 card_late"
  using card_contributes_iff_due_relevant[OF process_card_long]
        card_contributes_iff_due_relevant[OF process_card_late]
        process_card_long process_card_late
  by (simp add: entries_count_def)

subsection \<open>Card names and absent fields\<close>

lemma short_name_str:
  "getitem crd (lit ''name'') = Inr (JStr nm) \<Longrightarrow>
   short_name crd = Inr (JStr (if length nm \<le> 30 then nm else take 30 nm @ lit ''...''))"
  by (simp add: short_name_def)

text \<open>
  Claim C7.  For every card that is included, the name stored in the report is the
  card's name when that has at most 30 characters, and otherwise its first 30
  characters followed by three dots.
\<close>

theorem stored_name_is_short_name:
  assumes "process_card env token start_date end_date project_name board_name valid_list_ids
             result crd = Inr result'"
    and "due_relevant env valid_list_ids start_date end_date crd"
    and "getitem crd (lit ''name'') = Inr (JStr nm)"
  shows "\<exists>date comment.
           add_entry project_name board_name
             (JStr (if length nm \<le> 30 then nm else take 30 nm @ lit ''...''), date, comment)
             result = Inr result'"
proof -
  from process_card_add[OF assms(1,2)] obtain obj name comment where
    name: "short_name crd = Inr name" and
    add: "add_entry project_name board_name (name, strftime obj, comment) result = Inr result'"
    by blast
  from name short_name_str[OF assms(3)]
  have "name = JStr (if length nm \<le> 30 then nm else take 30 nm @ lit ''...'')" by simp
  with add show ?thesis by blast
qed

lemma due_relevant_card_long:
  "due_relevant demo_env [JStr (lit ''l1'')] 739412 739412 card_long"
proof (rule ccontr)
  assume "\<not> due_relevant demo_env [JStr (lit ''l1'')] 739412 739412 card_long"
  from process_card_skip[OF process_card_long this] show False by simp
qed

lemma name_card_long:
  "getitem card_long (lit ''name'') = Inr (JStr (lit ''Write the quarterly report for team''))"
  by (simp add: card_long_def)

text \<open>An instance: a name of 35 characters is stored as its first 30 and three dots.\<close>

theorem stored_name_witness:
  "length (lit ''Write the quarterly report for team'') = 35 \<and>
   length (lit ''Write the quarterly report for'') = 30 \<and>
   (\<exists>date comment.
      add_entry (JStr (lit ''Ops'')) (JStr (lit ''Sprint''))
        (JStr (lit ''Write the quarterly report for'' @ lit ''...''), date, comment) []
      = Inr [(JStr (lit ''Ops''), [(JStr (lit ''Sprint''),
          [(JStr (lit ''Write the quarterly report for...''), lit ''10-06-2025 00:30'', [])])])])"
proof -
  have "take 30 (lit ''Write the quarterly report for team'') = lit ''Write the quarterly report for''"
    by (simp add: lit_def)
  with stored_name_is_short_name[OF process_card_long due_relevant_card_long name_card_long]
  show ?thesis by simp
qed

text \<open>
  Claim C10.  A card without the key \<open>isDueDateCompleted\<close> is processed exactly as
  the same card with \<open>isDueDateCompleted\<close> false, so it is included when its other
  conditions hold; and a card without the key \<open>dueDate\<close> (whose \<open>listId\<close>, when
  present, is a value that can be hashed) is skipped without an exception.
\<close>

theorem absent_fields_defaults:
  "(map_of kvs (lit ''isDueDateCompleted'') = None \<longrightarrow>
      process_card env token start_date end_date project_name board_name valid_list_ids result
        (JObj kvs)
      = process_card env token start_date end_date project_name board_name valid_list_ids result
          (JObj (kvs @ [(lit ''isDueDateCompleted'', JBool False)]))) \<and>
   (map_of kvs (lit ''dueDate'') = None \<and>
    (case map_of kvs (lit ''listId'') of None \<Rightarrow> True | Some l \<Rightarrow> hashable l) \<longrightarrow>
      process_card env token start_date end_date project_name board_name valid_list_ids result
        (JObj kvs) = Inr result)"
proof (intro conjI impI)
  assume absent: "map_of kvs (lit ''isDueDateCompleted'') = None"
  let ?kvs' = "kvs @ [(lit ''isDueDateCompleted'', JBool False)]"
  have other: "map_of ?kvs' k = map_of kvs k" if "k \<noteq> lit ''isDueDateCompleted''" for k
    using that by (simp add: map_add_def split: option.splits)
  have same: "map_of ?kvs' (lit ''isDueDateCompleted'') = Some (JBool False)"
    using absent by (simp add: map_add_def)
  have f1: "not_in_valid_list valid_list_ids (JObj ?kvs') = not_in_valid_list valid_list_ids (JObj kvs)"
    by (simp add: not_in_valid_list_def other del: map_of_append)
  have f2: "short_name (JObj ?kvs') = short_name (JObj kvs)"
    by (simp add: short_name_def other del: map_of_append)
  have f3: "dict_get (JObj ?kvs') (lit ''dueDate'') JNull = dict_get (JObj kvs) (lit ''dueDate'') JNull"
    by (simp add: other del: map_of_append)
  have f4: "dict_get (JObj ?kvs') (lit ''isDueDateCompleted'') (JBool False)
      = dict_get (JObj kvs) (lit ''isDueDateCompleted'') (JBool False)"
    using absent same by (simp del: map_of_append)
  have f5: "getitem (JObj ?kvs') (lit ''id'') = getitem (JObj kvs) (lit ''id'')"
    by (simp add: other del: map_of_append)
  show "process_card env token start_date end_date project_name board_name
        valid_list_ids result (JObj kvs)
      = process_card env token start_date end_date project_name board_name valid_list_ids result
          (JObj ?kvs')"
    unfolding process_card_def by (simp only: f1 f2 f3 f4 f5)
next
  assume "map_of kvs (lit ''dueDate'') = None \<and>
    (case map_of kvs (lit ''listId'') of None \<Rightarrow> True | Some l \<Rightarrow> hashable l)"
  then show "process_card env token start_date end_date project_name board_name valid_list_ids
      result (JObj kvs) = Inr result"
    by (auto simp: process_card_def not_in_valid_list_def set_contains_def split: option.splits)
qed

text \<open>
  An instance: the sample card without \<open>isDueDateCompleted\<close> is included as it is
  when the field is added with the value false, and the sample card without
  \<open>dueDate\<close> leaves the result empty.
\<close>

theorem absent_fields_witness:
  "process_card demo_env (JStr (lit ''tok'')) 739412 739412 (JStr (lit ''Ops''))
      (JStr (lit ''Sprint'')) [JStr (lit ''l1'')] []
      (JObj ([(lit ''id'', JStr (lit ''c2'')),
              (lit ''name'', JStr (lit ''Write the quarterly report for team'')),
              (lit ''listId'', JStr (lit ''l1'')),
              (lit ''dueDate'', JStr (lit ''2025-06-09T21:30:00.000Z''))]
             @ [(lit ''isDueDateCompleted'', JBool False)])) =
     Inr [(JStr (lit ''Ops''), [(JStr (lit ''Sprint''),
            [(JStr (lit ''Write the quarterly report for...''), lit ''10-06-2025 00:30'', [])])])] \<and>
   process_card demo_env (JStr (lit ''tok'')) 739412 739412 (JStr (lit ''Ops''))
      (JStr (lit ''Sprint'')) [JStr (lit ''l1'')] []
      (JObj [(lit ''id'', JStr (lit ''c4'')), (lit ''name'', JStr (lit ''No due'')),
             (lit ''listId'', JStr (lit ''l1''))]) = Inr []"
proof -
  let ?long = "[(lit ''id'', JStr (lit ''c2'')),
            (lit ''name'', JStr (lit ''Write the quarterly report for team'')),
            (lit ''listId'', JStr (lit ''l1'')),
            (lit ''dueDate'', JStr (lit ''2025-06-09T21:30:00.000Z''))]"
  let ?no_due = "[(lit ''id'', JStr (lit ''c4'')), (lit ''name'', JStr (lit ''No due'')),
            (lit ''listId'', JStr (lit ''l1''))]"
  have "map_of ?long (lit ''isDueDateCompleted'') = None" by simp
  with absent_fields_defaults[of ?long demo_env "JStr (lit ''tok'')" 739412 739412
      "JStr (lit ''Ops'')" "JStr (lit ''Sprint'')" "[JStr (lit ''l1'')]" "[]"]
  have "process_card demo_env (JStr (lit ''tok'')) 739412 739412 (JStr (lit ''Ops''))
      (JStr (lit ''Sprint'')) [JStr (lit ''l1'')] []
      (JObj (?long @ [(lit ''isDueDateCompleted'', JBool False)]))
    = process_card demo_env (JStr (lit ''tok'')) 739412 739412 (JStr (lit ''Ops''))
      (JStr (lit ''Sprint'')) [JStr (lit ''l1'')] [] (JObj ?long)"
    by (simp only:)
  then have first: "process_card demo_env (JStr (lit ''tok'')) 739412 739412 (JStr (lit ''Ops''))
      (JStr (lit ''Sprint'')) [JStr (lit ''l1'')] []
      (JObj (?long @ [(lit ''isDueDateCompleted'', JBool False)]))
    = Inr [(JStr (lit ''Ops''), [(JStr (lit ''Sprint''),
            [(JStr (lit ''Write the quarterly report for...''), lit ''10-06-2025 00:30'', [])])])]"
    using process_card_long by (simp only: card_long_def)
  have "map_of ?no_due (lit ''dueDate'') = None \<and>
      (case map_of ?no_due (lit ''listId'') of None \<Rightarrow> True | Some l \<Rightarrow> hashable l)"
    by simp
  with absent_fields_defaults[of ?no_due demo_env "JStr (lit ''tok'')" 739412 739412
      "JStr (lit ''Ops'')" "JStr (lit ''Sprint'')" "[JStr (lit ''l1'')]" "[]"]
  have "process_card demo_env (JStr (lit ''tok'')) 739412 739412 (JStr (lit ''Ops''))
      (JStr (lit ''Sprint'')) [JStr (lit ''l1'')] [] (JObj ?no_due) = Inr []"
    by (simp only:)
  with first show ?thesis by (simp only: simp_thms)
qed

subsection \<open>The date window of \<open>send_tasks\<close>\<close>

lemma button_today_words:
  "str_contains (lit ''today'') button_today"
  by (simp add: button_today_def calendar_sign_def lit_def)

lemma button_week_words:
  "\<not> str_contains (lit ''today'') button_week"
  "\<not> str_contains (lit ''tomorrow'') button_week"
  by (simp_all add: button_week_def calendar_sign_def lit_def)

lemma button_tomorrow_words:
  "\<not> str_contains (lit ''today'') button_tomorrow"
  "\<not> str_contains (lit ''tomorrow'') button_tomorrow"
  by (simp_all add: button_tomorrow_def calendar_sign_def lit_def)

text \<open>
  The text of the second button is spelled with a capital T, so neither word is
  found in it and the \<open>else\<close> branch chooses its window.
\<close>

lemma button_tomorrow_window:
  "select_window button_tomorrow 739412 = Inr (date_min, 739419)"
  by (simp add: select_window_def button_tomorrow_words date_add_days_def date_min_def date_max_def)

text \<open>
  Claim C4, as stated, fails on the third button: its window does not start on the
  day after today but at \<open>date.min\<close>, so it holds every past date and today as well.
\<close>

theorem week_window_counterexample:
  "select_window button_week 739412 = Inr (1, 739419) \<and>
   select_window button_week 739412 \<noteq> Inr (739412 + 1, 739412 + 7)"
  by (simp add: select_window_def button_week_words date_add_days_def date_min_def date_max_def)

text \<open>
  Claim C4, amended.  The first button selects \<open>start = date.min\<close>, \<open>end = today\<close>;
  the third button selects \<open>start = date.min\<close>, \<open>end = today + 7 days\<close> (every date
  up to the seventh day after today, the past included); and a text that contains
  \<open>tomorrow\<close> and not \<open>today\<close> selects \<open>start = end = today + 1 day\<close>.
\<close>

theorem select_window_buttons:
  assumes "date_min \<le> today" and "today + 7 \<le> date_max"
  shows "select_window button_today today = Inr (date_min, today) \<and>
         select_window button_week today = Inr (date_min, today + 7) \<and>
         (\<not> str_contains (lit ''today'') text \<and> str_contains (lit ''tomorrow'') text \<longrightarrow>
            select_window text today = Inr (today + 1, today + 1))"
  using assms
  by (simp add: select_window_def button_today_words button_week_words date_add_days_def)

text \<open>An instance: today is 2025-06-10 (ordinal 739412).\<close>

theorem select_window_buttons_witness:
  "date_min \<le> 739412 \<and> 739412 + 7 \<le> date_max \<and>
   select_window button_today 739412 = Inr (date_min, 739412) \<and>
   select_window button_week 739412 = Inr (date_min, 739419) \<and>
   select_window (lit ''tasks for tomorrow'') 739412 = Inr (739413, 739413)"
proof -
  have range: "date_min \<le> 739412" "739412 + 7 \<le> date_max"
    by (simp_all add: date_min_def date_max_def)
  have words: "\<not> str_contains (lit ''today'') (lit ''tasks for tomorrow'') \<and>
      str_contains (lit ''tomorrow'') (lit ''tasks for tomorrow'')"
    by (simp add: lit_def)
  from select_window_buttons[OF range, of "lit ''tasks for tomorrow''"] words range
  show ?thesis by simp
qed

subsection \<open>\<open>get_last_comment\<close> and \<open>get_token\<close>\<close>

text \<open>The failures that \<open>get_last_comment\<close> turns into the empty string.\<close>

lemma get_last_comment_softened:
  "planka env (CardActions card_id) token = ConnectionFailed \<Longrightarrow>
     get_last_comment env token card_id = Inr []"
  "planka env (CardActions card_id) token = Response status None \<Longrightarrow>
     get_last_comment env token card_id = Inr []"
  "planka env (CardActions card_id) token = Response status (Some (JObj kvs)) \<Longrightarrow>
     map_of kvs (lit ''items'') = None \<Longrightarrow> get_last_comment env token card_id = Inr []"
  "planka env (CardActions card_id) token = Response status (Some (JObj kvs)) \<Longrightarrow>
     map_of kvs (lit ''items'') = Some (JArr []) \<Longrightarrow> get_last_comment env token card_id = Inr []"
  by (simp_all add: get_last_comment_def last_comment_body_def requests_get_json_def)

lemma get_last_comment_not_caught:
  "get_last_comment env token card_id = Inl e \<Longrightarrow> \<not> is_RequestException e \<and> \<not> is_ValueError e"
  by (auto simp: get_last_comment_def split: sum.splits if_splits)

text \<open>
  Claim C2 fails on the code: a comment entry of the action log that lacks the key
  \<open>data\<close> makes \<open>get_last_comment\<close> raise \<open>KeyError\<close> to its caller.
\<close>

theorem comment_without_data_raises:
  "get_last_comment no_data_env (JStr (lit ''tok'')) (JStr (lit ''c1'')) = Inl KeyError"
  by (simp add: get_last_comment_def last_comment_body_def requests_get_json_def no_data_env_def
        parse_comment_def)

text \<open>
  Claim C3, as stated, fails: when the token request fails, \<open>send_tasks\<close> goes on to
  the aggregation with the token \<open>None\<close>.  With a service that rejects the request
  (status 401 and a body without \<open>items\<close>) the handler ends in \<open>KeyError\<close> and sends
  no reply.
\<close>

theorem token_failure_counterexample:
  "get_token no_token_env = Inr JNull \<and>
   send_tasks no_token_env button_today 739412 = Inl KeyError"
  by (simp add: get_token_def post_access_tokens_def no_token_env_def demo_env_def
        send_tasks_def select_window_def button_today_words get_due_cards_def
        requests_get_json_def demo_planka_def)

text \<open>
  Claim C3, amended.  On a transport error, and on a response with a status from 400
  to 599, \<open>get_token\<close> returns \<open>None\<close> and does not raise; \<open>send_tasks\<close> does not
  examine the token: its outcome is that of the aggregation run with the token
  \<open>None\<close>.
\<close>

theorem token_failure_not_checked:
  assumes "access_tokens env = ConnectionFailed \<or>
           (\<exists>status body. access_tokens env = Response status body \<and>
                            400 \<le> status \<and> status < 600)"
  shows "get_token env = Inr JNull \<and>
         send_tasks env text today =
           bindE (select_window text today) (\<lambda>(start_date, end_date).
           bindE (get_due_cards env JNull start_date end_date) (\<lambda>tasks.
           Inr (if tasks = [] then NoTasks else TaskList tasks)))"
proof -
  from assms have "get_token env = Inr JNull"
    by (auto simp: get_token_def post_access_tokens_def)
  then show ?thesis
    by (simp add: send_tasks_def)
qed

subsection \<open>The sample board, card by card\<close>

lemma sorted_comments:
  "sort_reverse
     [\<lparr>c_text = lit ''first note'', c_createdAt = \<lparr>wall = 63884448000000000, utcoffset = None\<rparr>\<rparr>,
      \<lparr>c_text = lit ''second note'', c_createdAt = \<lparr>wall = 63884534400000000, utcoffset = None\<rparr>\<rparr>]
   = Inr [\<lparr>c_text = lit ''second note'', c_createdAt = \<lparr>wall = 63884534400000000, utcoffset = None\<rparr>\<rparr>,
          \<lparr>c_text = lit ''first note'', c_createdAt = \<lparr>wall = 63884448000000000, utcoffset = None\<rparr>\<rparr>]"
  by (simp add: sort_reverse_def dt_comparable_def dt_key_def)

lemma first_50_second_note: "first_50 (lit ''second note'') = lit ''second note''"
  by (simp add: first_50_def lit_def)

lemma demo_actions_items:
  "contains (lit ''items'') demo_actions = Inr True"
  "bindE (getitem demo_actions (lit ''items'')) iter = Inr
    [JObj [(lit ''type'', JStr (lit ''commentCard'')),
           (lit ''data'', JObj [(lit ''text'', JStr (lit ''  first   note ''))]),
           (lit ''createdAt'', JStr (lit ''2025-06-01T08:00:00.000Z''))],
     JObj [(lit ''type'', JStr (lit ''createCard'')), (lit ''data'', JObj []),
           (lit ''createdAt'', JStr (lit ''2025-05-01T08:00:00.000Z''))],
     JObj [(lit ''type'', JStr (lit ''commentCard'')),
           (lit ''data'', JObj [(lit ''text'', JStr (lit ''second  note''))]),
           (lit ''createdAt'', JStr (lit ''2025-06-02T08:00:00.000Z''))]]"
  by (simp_all add: demo_actions_def)

lemma bindE_assoc: "bindE (bindE m f) g = bindE m (\<lambda>x. bindE (f x) g)"
  by (cases m) simp_all

lemma comment_fix:
  "get_last_comment demo_env (JStr (lit ''tok'')) (JStr (lit ''c1'')) = Inr (lit ''second note'')"
proof -
  have "last_comment_body demo_env (JStr (lit ''tok'')) (JStr (lit ''c1'')) =
      bindE (bindE (getitem demo_actions (lit ''items'')) iter) (\<lambda>cs.
       bindE (comments_of demo_env cs) (\<lambda>comments.
       if comments \<noteq> [] then
         bindE (sort_reverse comments) (\<lambda>sorted.
         case sorted of
           [] \<Rightarrow> Inl IndexError
         | c # _ \<Rightarrow> Inr (first_50 (c_text c)))
       else Inr []))"
    unfolding last_comment_body_def
    by (simp only: actions1 demo_actions_items(1) bindE_Inr bindE_assoc simp_thms if_False)
  also have "\<dots> = Inr (lit ''second note'')"
    by (simp only: demo_actions_items(2) comments1 sorted_comments first_50_second_note
          bindE_Inr list.simps comment.simps if_True simp_thms)
  finally show ?thesis
    by (simp add: get_last_comment_def)
qed

lemma date_fix: "dt_date \<lparr>wall = 63885243600000000, utcoffset = Some 10800000000\<rparr> = 739412"
  by (simp add: dt_date_def usec_per_day_def)

lemma card_fix_fields:
  "not_in_valid_list [JStr (lit ''l1'')] card_fix = Inr False"
  "dict_get card_fix (lit ''dueDate'') JNull = Inr (JStr (lit ''2025-06-10T10:00:00.000Z''))"
  "dict_get card_fix (lit ''isDueDateCompleted'') (JBool False) = Inr (JBool False)"
  "getitem card_fix (lit ''id'') = Inr (JStr (lit ''c1''))"
  "short_name card_fix = Inr (JStr (lit ''Fix pipeline''))"
  by (simp_all add: card_fix_def not_in_valid_list_def set_contains_def short_name_def)

lemma process_card_fix:
  "process_card demo_env (JStr (lit ''tok'')) s e pn bn [JStr (lit ''l1'')] result card_fix =
     (if s \<le> 739412 \<and> 739412 \<le> e
      then add_entry pn bn (JStr (lit ''Fix pipeline''), lit ''10-06-2025 13:00'', lit ''second note'')
             result
      else Inr result)"
  by (simp add: process_card_def card_fix_fields due1 date_fix comment_fix fmt1)

lemma process_card_long_any:
  "process_card demo_env (JStr (lit ''tok'')) s e pn bn [JStr (lit ''l1'')] result card_long =
     (if s \<le> 739412 \<and> 739412 \<le> e
      then add_entry pn bn (JStr (lit ''Write the quarterly report for...''), lit ''10-06-2025 00:30'', [])
             result
      else Inr result)"
  by (simp add: process_card_def card_long_fields due_long date_long short_long comment_long
        fmt_long)

lemma process_card_done:
  "process_card demo_env (JStr (lit ''tok'')) s e pn bn [JStr (lit ''l1'')] result card_done
     = Inr result"
  by (simp add: process_card_def card_done_def not_in_valid_list_def set_contains_def)

lemma process_card_no_due:
  "process_card demo_env (JStr (lit ''tok'')) s e pn bn [JStr (lit ''l1'')] result card_no_due
     = Inr result"
  by (simp add: process_card_def card_no_due_def not_in_valid_list_def set_contains_def)

lemma process_card_stale:
  "process_card demo_env (JStr (lit ''tok'')) s e pn bn [JStr (lit ''l1'')] result card_stale
     = Inr result"
  by (simp add: process_card_def card_stale_def not_in_valid_list_def set_contains_def)

lemma comment_late:
  "get_last_comment demo_env (JStr (lit ''tok'')) (JStr (lit ''c6'')) = Inr []"
  by (simp add: get_last_comment_def last_comment_body_def requests_get_json_def demo_planka_def)

lemma fmt_late:
  "strftime \<lparr>wall = 63885283200000000, utcoffset = Some 10800000000\<rparr> = lit ''11-06-2025 00:00''"
  by code_simp

lemma card_late_more:
  "getitem card_late (lit ''id'') = Inr (JStr (lit ''c6''))"
  "short_name card_late = Inr (JStr (lit ''Late''))"
  by (simp_all add: card_late_def short_name_def)

lemma process_card_late_any:
  "process_card demo_env (JStr (lit ''tok'')) s e pn bn [JStr (lit ''l1'')] result card_late =
     (if s \<le> 739413 \<and> 739413 \<le> e
      then add_entry pn bn (JStr (lit ''Late''), lit ''11-06-2025 00:00'', []) result
      else Inr result)"
  by (simp add: process_card_def card_late_fields card_late_more due_late date_late comment_late
        fmt_late)

end
